theory Spec2Isabelle
  imports Main "HOL-Library.Word"
begin

unbundle bit_operations_syntax

section \<open>Domain errors (internal/domain/errors.go)\<close>

text \<open>
  The sentinel errors of package domain are compared by identity in the use cases
  (\<^verbatim>\<open>err == domain.ErrUserNotFound\<close>), so each one is a constructor of its own.
  \<open>External\<close> stands for an error value produced by a library (gorm, bcrypt, crypto/rand,
  the jwt package); \<open>Wrapped p e\<close> is \<^verbatim>\<open>fmt.Errorf(p + "%w", e)\<close>.
\<close>

datatype error =
    ErrUserNotFound
  | ErrUserAlreadyExists
  | ErrInvalidCredentials
  | ErrRefreshTokenNotFound
  | ErrRefreshTokenExpired
  | ErrRefreshTokenRevoked
  | ErrInvalidToken
  | ErrUnauthorized
  | External string
  | Wrapped string error

text \<open>The message of an error value (\<^verbatim>\<open>err.Error()\<close>), which the HTTP handler sends back.\<close>

fun Error :: "error \<Rightarrow> string" where
  "Error ErrUserNotFound = ''user not found''"
| "Error ErrUserAlreadyExists = ''user already exists''"
| "Error ErrInvalidCredentials = ''invalid credentials''"
| "Error ErrRefreshTokenNotFound = ''refresh token not found''"
| "Error ErrRefreshTokenExpired = ''refresh token expired''"
| "Error ErrRefreshTokenRevoked = ''refresh token revoked''"
| "Error ErrInvalidToken = ''invalid token''"
| "Error ErrUnauthorized = ''unauthorized''"
| "Error (External s) = s"
| "Error (Wrapped p e) = p @ Error e"

section \<open>Domain entities (package domain)\<close>

text \<open>
  An instant (\<^verbatim>\<open>time.Time\<close>) is the number of nanoseconds since the Unix epoch and a
  \<^verbatim>\<open>time.Duration\<close> a number of nanoseconds; \<^verbatim>\<open>t.Add(d)\<close> is addition and
  \<^verbatim>\<open>t.After(u)\<close> is \<open>u < t\<close>. \<open>zeroTime\<close> is \<^verbatim>\<open>time.Time{}\<close>, January 1 of year 1.
\<close>

type_synonym Time = int
type_synonym Duration = int

definition zeroTime :: Time where
  "zeroTime = - 62135596800000000000"

record User =
  ID :: string
  Email :: string
  Password :: string
  Name :: string
  CreatedAt :: Time
  UpdatedAt :: Time
  DeletedAt :: "Time option"

text \<open>
  The refresh-token row. Its own identifier and timestamps carry the prefix \<open>rt_\<close>,
  since \<open>User\<close> has fields of the same names.
\<close>

record RefreshToken =
  rt_ID :: nat
  UserID :: string
  Token :: string
  ExpiresAt :: Time
  IsRevoked :: bool
  rt_CreatedAt :: Time
  rt_UpdatedAt :: Time

text \<open>
  \<^verbatim>\<open>IsExpired\<close> and \<^verbatim>\<open>IsValid\<close> read the clock (\<^verbatim>\<open>time.Now()\<close>); the instant read is
  the first argument.
\<close>

definition RefreshToken_IsExpired :: "Time \<Rightarrow> RefreshToken \<Rightarrow> bool" where
  "RefreshToken_IsExpired now rt = (ExpiresAt rt < now)"

definition RefreshToken_IsValid :: "Time \<Rightarrow> RefreshToken \<Rightarrow> bool" where
  "RefreshToken_IsValid now rt = (\<not> RefreshToken_IsExpired now rt \<and> \<not> IsRevoked rt)"

section \<open>The environment of one operation\<close>

text \<open>
  Everything an operation reads from outside the database: the clock, the system's random
  source, the RSA signer of the jwt package (with the manager's private key), bcrypt and
  the NanoID generator. An operation is taken to run at one instant \<open>time_Now\<close>.
  \<open>rand_Read_err\<close> is the error of \<^verbatim>\<open>rand.Read\<close>, if any, and \<open>rand_Read_bytes i\<close>
  the byte it writes at index \<open>i\<close> of the buffer. \<open>bcrypt_CompareHashAndPassword h p\<close> is
  \<open>None\<close> when the password matches the hash (a nil error).
\<close>

record Claims =
  c_UserID :: string
  c_Email :: string
  c_ExpiresAt :: Time
  c_IssuedAt :: Time
  c_NotBefore :: Time
  c_Issuer :: string
  c_Subject :: string

record env =
  time_Now :: Time
  rand_Read_err :: "error option"
  rand_Read_bytes :: "nat \<Rightarrow> 8 word"
  SignedString :: "Claims \<Rightarrow> error + string"
  bcrypt_GenerateFromPassword :: "string \<Rightarrow> error + string"
  bcrypt_CompareHashAndPassword :: "string \<Rightarrow> string \<Rightarrow> error option"
  gonanoid_Generate :: string

section \<open>The JWT manager (pkg/jwt/jwt.go)\<close>

record JWTManager =
  accessTokenDuration :: Duration
  refreshTokenDuration :: Duration

text \<open>\<^verbatim>\<open>jwt.NewNumericDate\<close> truncates an instant to whole seconds.\<close>

definition NewNumericDate :: "Time \<Rightarrow> Time" where
  "NewNumericDate t = t - t mod 1000000000"

definition JWTManager_GenerateAccessToken ::
  "JWTManager \<Rightarrow> env \<Rightarrow> string \<Rightarrow> string \<Rightarrow> error + string" where
  "JWTManager_GenerateAccessToken m e userID email =
     SignedString e
       \<lparr>c_UserID = userID, c_Email = email,
        c_ExpiresAt = NewNumericDate (time_Now e + accessTokenDuration m),
        c_IssuedAt = NewNumericDate (time_Now e),
        c_NotBefore = NewNumericDate (time_Now e),
        c_Issuer = ''auth-service'', c_Subject = userID\<rparr>"

text \<open>
  \<^verbatim>\<open>hex.EncodeToString\<close>: two characters of \<open>hextable\<close> for each byte, the high nibble
  first.
\<close>

definition hextable :: string where
  "hextable = ''0123456789abcdef''"

primrec hex_EncodeToString :: "8 word list \<Rightarrow> string" where
  "hex_EncodeToString [] = []"
| "hex_EncodeToString (v # src) =
     hextable ! unat (drop_bit 4 v) # hextable ! unat (v AND 0x0f) # hex_EncodeToString src"

text \<open>
  \<^verbatim>\<open>GenerateRefreshToken\<close>: a buffer of 32 bytes filled by \<^verbatim>\<open>rand.Read\<close>, encoded in
  hexadecimal; the expiry is the current time plus the refresh-token lifetime.
\<close>

definition JWTManager_GenerateRefreshToken ::
  "JWTManager \<Rightarrow> env \<Rightarrow> string \<Rightarrow> error + string \<times> Time" where
  "JWTManager_GenerateRefreshToken m e userID =
     (case rand_Read_err e of
        Some err \<Rightarrow> Inl (Wrapped ''failed to generate random token: '' err)
      | None \<Rightarrow>
          (let tokenBytes = map (rand_Read_bytes e) [0..<32];
               tokenString = hex_EncodeToString tokenBytes;
               expiresAt = time_Now e + refreshTokenDuration m
           in Inr (tokenString, expiresAt)))"

section \<open>The database and the repositories (internal/repository)\<close>

text \<open>
  The two tables, each in the order of insertion, the sequence that numbers the rows of
  \<open>refresh_tokens\<close> inserted without a key, and the log of the statements the
  repositories have run, in order. The finders look a row up by a column with a unique
  index (id, email, token), so at most one row answers and the order in which
  \<^verbatim>\<open>First\<close> looks does not matter. The storage engine itself is reliable: a statement
  fails only where the schema's constraints reject it.
\<close>

datatype statement =
    Users_Create string
  | Users_FindByID string
  | Users_FindByEmail string
  | Users_Delete string
  | RefreshTokens_Create string
  | RefreshTokens_FindByToken string
  | RefreshTokens_FindByUserID string
  | RefreshTokens_Revoke string
  | RefreshTokens_RevokeAllByUserID string
  | RefreshTokens_DeleteExpired

record db =
  users :: "User list"
  refresh_tokens :: "RefreshToken list"
  refresh_tokens_id_seq :: nat
  statements :: "statement list"

definition empty_db :: db where
  "empty_db = \<lparr>users = [], refresh_tokens = [], refresh_tokens_id_seq = 1, statements = []\<rparr>"

definition run :: "statement \<Rightarrow> db \<Rightarrow> db" where
  "run s d = d\<lparr>statements := statements d @ [s]\<rparr>"

text \<open>An SQL \<^verbatim>\<open>UPDATE ... WHERE\<close>: the rows that satisfy \<open>P\<close> are replaced by \<open>g\<close> of them.\<close>

definition update_where :: "('a \<Rightarrow> bool) \<Rightarrow> ('a \<Rightarrow> 'a) \<Rightarrow> 'a list \<Rightarrow> 'a list" where
  "update_where P g rows = map (\<lambda>r. if P r then g r else r) rows"

text \<open>
  \<^verbatim>\<open>userRepository.Create\<close>. The \<^verbatim>\<open>BeforeCreate\<close> hook of \<^verbatim>\<open>BaseModelNanoID\<close> fills an
  empty ID; gorm fills zero timestamps; the primary key and the unique index on email
  reject a duplicate. The row as inserted is returned (the Go code updates the struct
  behind the pointer).
\<close>

definition userRepository_Create :: "env \<Rightarrow> User \<Rightarrow> db \<Rightarrow> (error + User) \<times> db" where
  "userRepository_Create e user d =
     (let user1 = (if ID user = [] then user\<lparr>ID := gonanoid_Generate e\<rparr> else user);
          user2 = user1
            \<lparr>CreatedAt := (if CreatedAt user1 = zeroTime then time_Now e else CreatedAt user1),
             UpdatedAt := (if UpdatedAt user1 = zeroTime then time_Now e else UpdatedAt user1)\<rparr>;
          d1 = run (Users_Create (Email user)) d
      in if \<exists>u \<in> set (users d). ID u = ID user2 \<or> Email u = Email user2
         then (Inl (External ''duplicate key value violates unique constraint''), d1)
         else (Inr user2, d1\<lparr>users := users d @ [user2]\<rparr>))"

text \<open>The finders of users skip soft-deleted rows (gorm's \<^verbatim>\<open>deleted_at IS NULL\<close>).\<close>

definition userRepository_FindByID :: "string \<Rightarrow> db \<Rightarrow> (error + User) \<times> db" where
  "userRepository_FindByID uid d =
     (case find (\<lambda>u. ID u = uid \<and> DeletedAt u = None) (users d) of
        None \<Rightarrow> (Inl ErrUserNotFound, run (Users_FindByID uid) d)
      | Some user \<Rightarrow> (Inr user, run (Users_FindByID uid) d))"

definition userRepository_FindByEmail :: "string \<Rightarrow> db \<Rightarrow> (error + User) \<times> db" where
  "userRepository_FindByEmail email d =
     (case find (\<lambda>u. Email u = email \<and> DeletedAt u = None) (users d) of
        None \<Rightarrow> (Inl ErrUserNotFound, run (Users_FindByEmail email) d)
      | Some user \<Rightarrow> (Inr user, run (Users_FindByEmail email) d))"

text \<open>\<^verbatim>\<open>userRepository.Delete\<close> is gorm's soft delete: it stamps \<open>DeletedAt\<close>.\<close>

definition userRepository_Delete :: "env \<Rightarrow> string \<Rightarrow> db \<Rightarrow> error option \<times> db" where
  "userRepository_Delete e uid d =
     (None, (run (Users_Delete uid) d)
        \<lparr>users := update_where (\<lambda>u. ID u = uid \<and> DeletedAt u = None)
                   (\<lambda>u. u\<lparr>DeletedAt := Some (time_Now e)\<rparr>) (users d)\<rparr>)"

text \<open>
  \<^verbatim>\<open>refreshTokenRepository.Create\<close>. A row whose ID is 0 is inserted without a key and
  numbered from the sequence, which advances whether or not the insert succeeds; a row
  with another ID is inserted under that key and the sequence is left alone. The primary
  key, the unique index on token and the foreign key to users reject the row.
\<close>

definition refreshTokenRepository_Create ::
  "env \<Rightarrow> RefreshToken \<Rightarrow> db \<Rightarrow> error option \<times> db" where
  "refreshTokenRepository_Create e token d =
     (let row = token
            \<lparr>rt_ID := (if rt_ID token = 0 then refresh_tokens_id_seq d else rt_ID token),
             rt_CreatedAt :=
               (if rt_CreatedAt token = zeroTime then time_Now e else rt_CreatedAt token),
             rt_UpdatedAt :=
               (if rt_UpdatedAt token = zeroTime then time_Now e else rt_UpdatedAt token)\<rparr>;
          d1 = (run (RefreshTokens_Create (Token token)) d)
            \<lparr>refresh_tokens_id_seq :=
               (if rt_ID token = 0 then refresh_tokens_id_seq d + 1
                else refresh_tokens_id_seq d)\<rparr>
      in if \<exists>r \<in> set (refresh_tokens d). rt_ID r = rt_ID row \<or> Token r = Token token
         then (Some (External ''duplicate key value violates unique constraint''), d1)
         else if \<not> (\<exists>u \<in> set (users d). ID u = UserID token)
         then (Some (External ''insert violates foreign key constraint''), d1)
         else (None, d1\<lparr>refresh_tokens := refresh_tokens d @ [row]\<rparr>))"

text \<open>
  \<^verbatim>\<open>FindByToken\<close> returns the first row with the token value, whatever its state.
\<close>

definition refreshTokenRepository_FindByToken ::
  "string \<Rightarrow> db \<Rightarrow> (error + RefreshToken) \<times> db" where
  "refreshTokenRepository_FindByToken token d =
     (case find (\<lambda>r. Token r = token) (refresh_tokens d) of
        None \<Rightarrow> (Inl ErrRefreshTokenNotFound, run (RefreshTokens_FindByToken token) d)
      | Some refreshToken \<Rightarrow> (Inr refreshToken, run (RefreshTokens_FindByToken token) d))"

definition refreshTokenRepository_FindByUserID ::
  "string \<Rightarrow> db \<Rightarrow> (error + RefreshToken list) \<times> db" where
  "refreshTokenRepository_FindByUserID userID d =
     (Inr (filter (\<lambda>r. UserID r = userID \<and> IsRevoked r = False) (refresh_tokens d)),
      run (RefreshTokens_FindByUserID userID) d)"

text \<open>
  \<^verbatim>\<open>Revoke\<close> and \<^verbatim>\<open>RevokeAllByUserID\<close> are one UPDATE each: every row that matches gets
  \<open>is_revoked = true\<close> (and gorm's \<open>updated_at\<close>); matching no row is not an error.
\<close>

definition refreshTokenRepository_Revoke :: "env \<Rightarrow> string \<Rightarrow> db \<Rightarrow> error option \<times> db" where
  "refreshTokenRepository_Revoke e tokenString d =
     (None, (run (RefreshTokens_Revoke tokenString) d)
        \<lparr>refresh_tokens :=
           update_where (\<lambda>r. Token r = tokenString)
             (\<lambda>r. r\<lparr>IsRevoked := True, rt_UpdatedAt := time_Now e\<rparr>) (refresh_tokens d)\<rparr>)"

definition refreshTokenRepository_RevokeAllByUserID ::
  "env \<Rightarrow> string \<Rightarrow> db \<Rightarrow> error option \<times> db" where
  "refreshTokenRepository_RevokeAllByUserID e userID d =
     (None, (run (RefreshTokens_RevokeAllByUserID userID) d)
        \<lparr>refresh_tokens :=
           update_where (\<lambda>r. UserID r = userID)
             (\<lambda>r. r\<lparr>IsRevoked := True, rt_UpdatedAt := time_Now e\<rparr>) (refresh_tokens d)\<rparr>)"

definition refreshTokenRepository_DeleteExpired :: "env \<Rightarrow> db \<Rightarrow> error option \<times> db" where
  "refreshTokenRepository_DeleteExpired e d =
     (None, (run RefreshTokens_DeleteExpired d)
        \<lparr>refresh_tokens := filter (\<lambda>r. \<not> ExpiresAt r < time_Now e) (refresh_tokens d)\<rparr>)"

section \<open>The use cases (package usecase)\<close>

text \<open>
  The response of Register, Login and RefreshToken. \<open>ExpiresIn\<close>, a conversion of the
  access-token lifetime through floating point, is left out.
\<close>

record UserResponse =
  ur_ID :: string
  ur_Email :: string
  ur_Name :: string

record AuthResponse =
  AccessToken :: string
  ar_RefreshToken :: string
  TokenType :: string
  ar_User :: UserResponse

definition generateTokens ::
  "JWTManager \<Rightarrow> env \<Rightarrow> User \<Rightarrow> db \<Rightarrow> (error + AuthResponse) \<times> db" where
  "generateTokens m e user d =
     (case JWTManager_GenerateAccessToken m e (ID user) (Email user) of
        Inl err \<Rightarrow> (Inl (Wrapped ''failed to generate access token: '' err), d)
      | Inr accessToken \<Rightarrow>
          (case JWTManager_GenerateRefreshToken m e (ID user) of
             Inl err \<Rightarrow> (Inl (Wrapped ''failed to generate refresh token: '' err), d)
           | Inr (refreshTokenString, expiresAt) \<Rightarrow>
               (case refreshTokenRepository_Create e
                       \<lparr>rt_ID = 0, UserID = ID user, Token = refreshTokenString,
                        ExpiresAt = expiresAt, IsRevoked = False,
                        rt_CreatedAt = zeroTime, rt_UpdatedAt = zeroTime\<rparr> d of
                  (Some err, d') \<Rightarrow> (Inl (Wrapped ''failed to save refresh token: '' err), d')
                | (None, d') \<Rightarrow>
                    (Inr \<lparr>AccessToken = accessToken, ar_RefreshToken = refreshTokenString,
                          TokenType = ''Bearer'',
                          ar_User = \<lparr>ur_ID = ID user, ur_Email = Email user,
                                     ur_Name = Name user\<rparr>\<rparr>, d'))))"

definition authUseCase_Register ::
  "JWTManager \<Rightarrow> env \<Rightarrow> string \<Rightarrow> string \<Rightarrow> string \<Rightarrow> db \<Rightarrow> (error + AuthResponse) \<times> db" where
  "authUseCase_Register m e email password name d =
     (case userRepository_FindByEmail email d of
        (Inl err, d1) \<Rightarrow>
          (if err \<noteq> ErrUserNotFound then (Inl err, d1)
           else
             (case bcrypt_GenerateFromPassword e password of
                Inl err \<Rightarrow> (Inl (Wrapped ''failed to hash password: '' err), d1)
              | Inr hashedPassword \<Rightarrow>
                  (case userRepository_Create e
                          \<lparr>ID = [], Email = email, Password = hashedPassword, Name = name,
                           CreatedAt = zeroTime, UpdatedAt = zeroTime, DeletedAt = None\<rparr> d1 of
                     (Inl err, d2) \<Rightarrow> (Inl (Wrapped ''failed to create user: '' err), d2)
                   | (Inr user, d2) \<Rightarrow> generateTokens m e user d2)))
      | (Inr existingUser, d1) \<Rightarrow> (Inl ErrUserAlreadyExists, d1))"

definition authUseCase_Login ::
  "JWTManager \<Rightarrow> env \<Rightarrow> string \<Rightarrow> string \<Rightarrow> db \<Rightarrow> (error + AuthResponse) \<times> db" where
  "authUseCase_Login m e email password d =
     (case userRepository_FindByEmail email d of
        (Inl err, d1) \<Rightarrow>
          (if err = ErrUserNotFound then (Inl ErrInvalidCredentials, d1) else (Inl err, d1))
      | (Inr user, d1) \<Rightarrow>
          (case bcrypt_CompareHashAndPassword e (Password user) password of
             Some err \<Rightarrow> (Inl ErrInvalidCredentials, d1)
           | None \<Rightarrow> generateTokens m e user d1))"

definition authUseCase_RefreshToken ::
  "JWTManager \<Rightarrow> env \<Rightarrow> string \<Rightarrow> db \<Rightarrow> (error + AuthResponse) \<times> db" where
  "authUseCase_RefreshToken m e req_RefreshToken d =
     (case refreshTokenRepository_FindByToken req_RefreshToken d of
        (Inl err, d1) \<Rightarrow>
          (if err = ErrRefreshTokenNotFound then (Inl ErrInvalidToken, d1) else (Inl err, d1))
      | (Inr refreshToken, d1) \<Rightarrow>
          (if \<not> RefreshToken_IsValid (time_Now e) refreshToken
           then (if IsRevoked refreshToken then (Inl ErrRefreshTokenRevoked, d1)
                 else (Inl ErrRefreshTokenExpired, d1))
           else
             (case userRepository_FindByID (UserID refreshToken) d1 of
                (Inl err, d2) \<Rightarrow> (Inl err, d2)
              | (Inr user, d2) \<Rightarrow>
                  (case refreshTokenRepository_Revoke e req_RefreshToken d2 of
                     (Some err, d3) \<Rightarrow>
                       (Inl (Wrapped ''failed to revoke old refresh token: '' err), d3)
                   | (None, d3) \<Rightarrow> generateTokens m e user d3))))"

definition authUseCase_Logout :: "env \<Rightarrow> string \<Rightarrow> db \<Rightarrow> error option \<times> db" where
  "authUseCase_Logout e refreshToken d = refreshTokenRepository_Revoke e refreshToken d"

definition authUseCase_LogoutAll :: "env \<Rightarrow> string \<Rightarrow> db \<Rightarrow> error option \<times> db" where
  "authUseCase_LogoutAll e userID d = refreshTokenRepository_RevokeAllByUserID e userID d"

section \<open>Operations and histories\<close>

text \<open>
  The operations that reach the database: the five use cases and, on their own, the
  repository methods. \<open>exec\<close> runs one of them and keeps the database it leaves;
  \<open>execs\<close> runs a history, each operation in the environment it meets.
\<close>

datatype operation =
    Op_Register string string string
  | Op_Login string string
  | Op_RefreshToken string
  | Op_Logout string
  | Op_LogoutAll string
  | Users_Op_Create User
  | Users_Op_FindByID string
  | Users_Op_FindByEmail string
  | Users_Op_Delete string
  | Tokens_Op_Create RefreshToken
  | Tokens_Op_FindByToken string
  | Tokens_Op_FindByUserID string
  | Tokens_Op_Revoke string
  | Tokens_Op_RevokeAllByUserID string
  | Tokens_Op_DeleteExpired

fun exec :: "JWTManager \<Rightarrow> env \<Rightarrow> operation \<Rightarrow> db \<Rightarrow> db" where
  "exec m e (Op_Register email password name) d =
     snd (authUseCase_Register m e email password name d)"
| "exec m e (Op_Login email password) d = snd (authUseCase_Login m e email password d)"
| "exec m e (Op_RefreshToken t) d = snd (authUseCase_RefreshToken m e t d)"
| "exec m e (Op_Logout t) d = snd (authUseCase_Logout e t d)"
| "exec m e (Op_LogoutAll uid) d = snd (authUseCase_LogoutAll e uid d)"
| "exec m e (Users_Op_Create user) d = snd (userRepository_Create e user d)"
| "exec m e (Users_Op_FindByID uid) d = snd (userRepository_FindByID uid d)"
| "exec m e (Users_Op_FindByEmail email) d = snd (userRepository_FindByEmail email d)"
| "exec m e (Users_Op_Delete uid) d = snd (userRepository_Delete e uid d)"
| "exec m e (Tokens_Op_Create token) d = snd (refreshTokenRepository_Create e token d)"
| "exec m e (Tokens_Op_FindByToken t) d = snd (refreshTokenRepository_FindByToken t d)"
| "exec m e (Tokens_Op_FindByUserID uid) d = snd (refreshTokenRepository_FindByUserID uid d)"
| "exec m e (Tokens_Op_Revoke t) d = snd (refreshTokenRepository_Revoke e t d)"
| "exec m e (Tokens_Op_RevokeAllByUserID uid) d =
     snd (refreshTokenRepository_RevokeAllByUserID e uid d)"
| "exec m e Tokens_Op_DeleteExpired d = snd (refreshTokenRepository_DeleteExpired e d)"

fun execs :: "JWTManager \<Rightarrow> (env \<times> operation) list \<Rightarrow> db \<Rightarrow> db" where
  "execs m [] d = d"
| "execs m ((e, op) # history) d = execs m history (exec m e op d)"




text \<open>
  \<open>precedes a b xs\<close>: \<open>b\<close> occurs in \<open>xs\<close> after the first occurrence of \<open>a\<close>.
\<close>

fun precedes :: "'a \<Rightarrow> 'a \<Rightarrow> 'a list \<Rightarrow> bool" where
  "precedes a b [] = False"
| "precedes a b (x # xs) = (if x = a then b \<in> set xs else precedes a b xs)"

section \<open>A sample configuration\<close>

text \<open>
  A manager with the default lifetimes (15 minutes, 7 days), an environment at instant
  1000 whose random source delivers zero bytes, and a database with one live account, one
  soft-deleted account and four refresh tokens: \<open>t1\<close> valid, \<open>t2\<close> revoked, \<open>t3\<close>
  expired, and \<open>t4\<close> valid but owned by the soft-deleted account.
\<close>

definition demo_manager :: JWTManager where
  "demo_manager =
     \<lparr>accessTokenDuration = 900000000000, refreshTokenDuration = 604800000000000\<rparr>"

definition demo_env :: env where
  "demo_env =
     \<lparr>time_Now = 1000, rand_Read_err = None, rand_Read_bytes = (\<lambda>i. 0),
      SignedString = (\<lambda>c. Inr ''jwt''),
      bcrypt_GenerateFromPassword = (\<lambda>p. Inr (''h:'' @ p)),
      bcrypt_CompareHashAndPassword =
        (\<lambda>h p. if h = ''h:'' @ p then None else Some (External ''mismatch'')),
      gonanoid_Generate = ''u9''\<rparr>"

definition demo_user :: User where
  "demo_user =
     \<lparr>ID = ''u1'', Email = ''a@x.com'', Password = ''h:pw123456'', Name = ''A'',
      CreatedAt = 10, UpdatedAt = 10, DeletedAt = None\<rparr>"

definition demo_db :: db where
  "demo_db =
     \<lparr>users =
        [demo_user,
         \<lparr>ID = ''u2'', Email = ''b@x.com'', Password = ''h:secret'', Name = ''B'',
          CreatedAt = 20, UpdatedAt = 30, DeletedAt = Some 30\<rparr>],
      refresh_tokens =
        [\<lparr>rt_ID = 1, UserID = ''u1'', Token = ''t1'', ExpiresAt = 2000, IsRevoked = False,
          rt_CreatedAt = 10, rt_UpdatedAt = 10\<rparr>,
         \<lparr>rt_ID = 2, UserID = ''u1'', Token = ''t2'', ExpiresAt = 2000, IsRevoked = True,
          rt_CreatedAt = 11, rt_UpdatedAt = 12\<rparr>,
         \<lparr>rt_ID = 3, UserID = ''u1'', Token = ''t3'', ExpiresAt = 500, IsRevoked = False,
          rt_CreatedAt = 13, rt_UpdatedAt = 13\<rparr>,
         \<lparr>rt_ID = 4, UserID = ''u2'', Token = ''t4'', ExpiresAt = 2000, IsRevoked = False,
          rt_CreatedAt = 20, rt_UpdatedAt = 20\<rparr>],
      refresh_tokens_id_seq = 5,
      statements = []\<rparr>"

section \<open>Basic facts about the repositories\<close>

lemma length_update_where: "length (update_where P g rows) = length rows"
  by (simp add: update_where_def)

lemma nth_update_where:
  "i < length rows \<Longrightarrow>
     update_where P g rows ! i = (if P (rows ! i) then g (rows ! i) else rows ! i)"
  by (simp add: update_where_def)

lemma in_set_update_where:
  "r' \<in> set (update_where P g rows) \<Longrightarrow> \<exists>r \<in> set rows. r' = (if P r then g r else r)"
  by (induction rows) (auto simp: update_where_def)

lemma find_update_where:
  assumes "\<And>r. Q (g r) = Q r"
  shows "find Q (update_where P g rows) =
           map_option (\<lambda>r. if P r then g r else r) (find Q rows)"
  using assms by (induction rows) (simp_all add: update_where_def)

lemma update_where_no_match:
  "\<forall>r \<in> set rows. \<not> P r \<Longrightarrow> update_where P g rows = rows"
  by (induction rows) (simp_all add: update_where_def)

lemma run_simps:
  "users (run s d) = users d"
  "refresh_tokens (run s d) = refresh_tokens d"
  "refresh_tokens_id_seq (run s d) = refresh_tokens_id_seq d"
  "statements (run s d) = statements d @ [s]"
  by (simp_all add: run_def)

lemma Revoke_simps:
  "fst (refreshTokenRepository_Revoke e t d) = None"
  "users (snd (refreshTokenRepository_Revoke e t d)) = users d"
  "refresh_tokens (snd (refreshTokenRepository_Revoke e t d)) =
     update_where (\<lambda>r. Token r = t) (\<lambda>r. r\<lparr>IsRevoked := True, rt_UpdatedAt := time_Now e\<rparr>)
       (refresh_tokens d)"
  "refresh_tokens_id_seq (snd (refreshTokenRepository_Revoke e t d)) = refresh_tokens_id_seq d"
  "statements (snd (refreshTokenRepository_Revoke e t d)) = statements d @ [RefreshTokens_Revoke t]"
  by (simp_all add: refreshTokenRepository_Revoke_def run_def)

lemma demo_db_simps:
  "users demo_db =
     [demo_user,
      \<lparr>ID = ''u2'', Email = ''b@x.com'', Password = ''h:secret'', Name = ''B'',
       CreatedAt = 20, UpdatedAt = 30, DeletedAt = Some 30\<rparr>]"
  "refresh_tokens demo_db =
     [\<lparr>rt_ID = 1, UserID = ''u1'', Token = ''t1'', ExpiresAt = 2000, IsRevoked = False,
       rt_CreatedAt = 10, rt_UpdatedAt = 10\<rparr>,
      \<lparr>rt_ID = 2, UserID = ''u1'', Token = ''t2'', ExpiresAt = 2000, IsRevoked = True,
       rt_CreatedAt = 11, rt_UpdatedAt = 12\<rparr>,
      \<lparr>rt_ID = 3, UserID = ''u1'', Token = ''t3'', ExpiresAt = 500, IsRevoked = False,
       rt_CreatedAt = 13, rt_UpdatedAt = 13\<rparr>,
      \<lparr>rt_ID = 4, UserID = ''u2'', Token = ''t4'', ExpiresAt = 2000, IsRevoked = False,
       rt_CreatedAt = 20, rt_UpdatedAt = 20\<rparr>]"
  "refresh_tokens_id_seq demo_db = 5"
  "statements demo_db = []"
  by (simp_all add: demo_db_def)

lemma demo_env_simps:
  "time_Now demo_env = 1000"
  "rand_Read_err demo_env = None"
  "rand_Read_bytes demo_env = (\<lambda>i. 0)"
  "SignedString demo_env = (\<lambda>c. Inr ''jwt'')"
  "bcrypt_CompareHashAndPassword demo_env =
     (\<lambda>h p. if h = ''h:'' @ p then None else Some (External ''mismatch''))"
  by (simp_all add: demo_env_def)

section \<open>The paths through RefreshToken\<close>

lemma RefreshToken_not_found:
  assumes "find (\<lambda>r. Token r = t) (refresh_tokens d) = None"
  shows "authUseCase_RefreshToken m e t d =
           (Inl ErrInvalidToken, run (RefreshTokens_FindByToken t) d)"
  using assms by (simp add: authUseCase_RefreshToken_def refreshTokenRepository_FindByToken_def)

lemma RefreshToken_found_revoked:
  assumes "find (\<lambda>r. Token r = t) (refresh_tokens d) = Some rt" and "IsRevoked rt"
  shows "authUseCase_RefreshToken m e t d =
           (Inl ErrRefreshTokenRevoked, run (RefreshTokens_FindByToken t) d)"
  using assms
  by (simp add: authUseCase_RefreshToken_def refreshTokenRepository_FindByToken_def
        RefreshToken_IsValid_def)

lemma RefreshToken_found_expired:
  assumes "find (\<lambda>r. Token r = t) (refresh_tokens d) = Some rt" and "\<not> IsRevoked rt"
    and "RefreshToken_IsExpired (time_Now e) rt"
  shows "authUseCase_RefreshToken m e t d =
           (Inl ErrRefreshTokenExpired, run (RefreshTokens_FindByToken t) d)"
  using assms
  by (simp add: authUseCase_RefreshToken_def refreshTokenRepository_FindByToken_def
        RefreshToken_IsValid_def)

lemma RefreshToken_no_user:
  assumes "find (\<lambda>r. Token r = t) (refresh_tokens d) = Some rt"
    and "RefreshToken_IsValid (time_Now e) rt"
    and "find (\<lambda>u. ID u = UserID rt \<and> DeletedAt u = None) (users d) = None"
  shows "authUseCase_RefreshToken m e t d =
           (Inl ErrUserNotFound,
            run (Users_FindByID (UserID rt)) (run (RefreshTokens_FindByToken t) d))"
  using assms
  by (simp add: authUseCase_RefreshToken_def refreshTokenRepository_FindByToken_def
        userRepository_FindByID_def run_simps)

lemma RefreshToken_valid:
  assumes "find (\<lambda>r. Token r = t) (refresh_tokens d) = Some rt"
    and "RefreshToken_IsValid (time_Now e) rt"
    and "find (\<lambda>u. ID u = UserID rt \<and> DeletedAt u = None) (users d) = Some user"
  shows "authUseCase_RefreshToken m e t d =
           generateTokens m e user
             (snd (refreshTokenRepository_Revoke e t
                (run (Users_FindByID (UserID rt)) (run (RefreshTokens_FindByToken t) d))))"
  using assms
  by (simp add: authUseCase_RefreshToken_def refreshTokenRepository_FindByToken_def
        userRepository_FindByID_def run_simps refreshTokenRepository_Revoke_def)

section \<open>The hexadecimal encoding\<close>









lemma demo_token: "hex_EncodeToString (map (\<lambda>i. 0) [0..<32]) = replicate 64 CHR ''0''"
  by (simp add: hextable_def upt_rec_numeral numeral_eq_Suc)

section \<open>Inserting a refresh token and issuing a token pair\<close>

lemma Create_token_ok:
  assumes "rt_ID token = 0"
    and "refresh_tokens_id_seq d \<notin> rt_ID ` set (refresh_tokens d)"
    and "Token token \<notin> Token ` set (refresh_tokens d)"
    and "ID u = UserID token" and "u \<in> set (users d)"
  shows "refreshTokenRepository_Create e token d =
    (None, d\<lparr>statements := statements d @ [RefreshTokens_Create (Token token)],
             refresh_tokens_id_seq := refresh_tokens_id_seq d + 1,
             refresh_tokens := refresh_tokens d @
               [token\<lparr>rt_ID := refresh_tokens_id_seq d,
                  rt_CreatedAt :=
                    (if rt_CreatedAt token = zeroTime then time_Now e else rt_CreatedAt token),
                  rt_UpdatedAt :=
                    (if rt_UpdatedAt token = zeroTime then time_Now e else rt_UpdatedAt token)\<rparr>]\<rparr>)"
proof -
  from assms(2,3)
  have 1: "\<not> (\<exists>r \<in> set (refresh_tokens d).
                rt_ID r = refresh_tokens_id_seq d \<or> Token r = Token token)"
    by (auto simp: image_iff)
  from assms(4,5) have 2: "\<exists>u \<in> set (users d). ID u = UserID token"
    by blast
  show ?thesis
    unfolding refreshTokenRepository_Create_def Let_def run_def
    using 1 2 assms(1) by simp
qed

lemma Create_token_None:
  assumes "refreshTokenRepository_Create e token d = (None, d')" and "rt_ID token = 0"
  shows "Token token \<notin> Token ` set (refresh_tokens d)"
    and "d' = d\<lparr>statements := statements d @ [RefreshTokens_Create (Token token)],
             refresh_tokens_id_seq := refresh_tokens_id_seq d + 1,
             refresh_tokens := refresh_tokens d @
               [token\<lparr>rt_ID := refresh_tokens_id_seq d,
                  rt_CreatedAt :=
                    (if rt_CreatedAt token = zeroTime then time_Now e else rt_CreatedAt token),
                  rt_UpdatedAt :=
                    (if rt_UpdatedAt token = zeroTime then time_Now e else rt_UpdatedAt token)\<rparr>]\<rparr>"
proof -
  have 1: "\<not> (\<exists>r \<in> set (refresh_tokens d).
                rt_ID r = refresh_tokens_id_seq d \<or> Token r = Token token)"
    using assms unfolding refreshTokenRepository_Create_def Let_def
    by (simp split: if_splits)
  then show "Token token \<notin> Token ` set (refresh_tokens d)"
    by (auto simp: image_iff)
  have 2: "\<exists>u \<in> set (users d). ID u = UserID token"
    using assms 1 unfolding refreshTokenRepository_Create_def Let_def
    by (simp split: if_splits)
  show "d' = d\<lparr>statements := statements d @ [RefreshTokens_Create (Token token)],
             refresh_tokens_id_seq := refresh_tokens_id_seq d + 1,
             refresh_tokens := refresh_tokens d @
               [token\<lparr>rt_ID := refresh_tokens_id_seq d,
                  rt_CreatedAt :=
                    (if rt_CreatedAt token = zeroTime then time_Now e else rt_CreatedAt token),
                  rt_UpdatedAt :=
                    (if rt_UpdatedAt token = zeroTime then time_Now e else rt_UpdatedAt token)\<rparr>]\<rparr>"
    using assms 1 2 unfolding refreshTokenRepository_Create_def Let_def run_def
    by simp
qed

lemma GenerateRefreshToken_cases:
  "JWTManager_GenerateRefreshToken m e uid =
     (case rand_Read_err e of
        Some err \<Rightarrow> Inl (Wrapped ''failed to generate random token: '' err)
      | None \<Rightarrow> Inr (hex_EncodeToString (map (rand_Read_bytes e) [0..<32]),
                     time_Now e + refreshTokenDuration m))"
  by (simp add: JWTManager_GenerateRefreshToken_def Let_def split: option.split del: upt.simps)

lemma generateTokens_ok:
  assumes access: "JWTManager_GenerateAccessToken m e (ID user) (Email user) = Inr accessToken"
    and rand: "rand_Read_err e = None"
    and key: "refresh_tokens_id_seq d \<notin> rt_ID ` set (refresh_tokens d)"
    and fresh: "hex_EncodeToString (map (rand_Read_bytes e) [0..<32])
                  \<notin> Token ` set (refresh_tokens d)"
    and owner: "user \<in> set (users d)"
  shows "generateTokens m e user d =
    (Inr \<lparr>AccessToken = accessToken,
          ar_RefreshToken = hex_EncodeToString (map (rand_Read_bytes e) [0..<32]),
          TokenType = ''Bearer'',
          ar_User = \<lparr>ur_ID = ID user, ur_Email = Email user, ur_Name = Name user\<rparr>\<rparr>,
     d\<lparr>statements := statements d @
          [RefreshTokens_Create (hex_EncodeToString (map (rand_Read_bytes e) [0..<32]))],
       refresh_tokens_id_seq := refresh_tokens_id_seq d + 1,
       refresh_tokens := refresh_tokens d @
         [\<lparr>rt_ID = refresh_tokens_id_seq d, UserID = ID user,
           Token = hex_EncodeToString (map (rand_Read_bytes e) [0..<32]),
           ExpiresAt = time_Now e + refreshTokenDuration m, IsRevoked = False,
           rt_CreatedAt = time_Now e, rt_UpdatedAt = time_Now e\<rparr>]\<rparr>)"
proof -
  define tok where "tok = hex_EncodeToString (map (rand_Read_bytes e) [0..<32])"
  define row where "row = \<lparr>rt_ID = 0, UserID = ID user, Token = tok,
      ExpiresAt = time_Now e + refreshTokenDuration m, IsRevoked = False,
      rt_CreatedAt = zeroTime, rt_UpdatedAt = zeroTime\<rparr>"
  have "rt_ID row = 0" "refresh_tokens_id_seq d \<notin> rt_ID ` set (refresh_tokens d)"
    "Token row \<notin> Token ` set (refresh_tokens d)" "ID user = UserID row"
    using fresh key by (simp_all add: row_def tok_def del: upt.simps)
  from Create_token_ok [OF this owner, of e]
  have "refreshTokenRepository_Create e row d =
    (None, d\<lparr>statements := statements d @ [RefreshTokens_Create tok],
             refresh_tokens_id_seq := refresh_tokens_id_seq d + 1,
             refresh_tokens := refresh_tokens d @
               [\<lparr>rt_ID = refresh_tokens_id_seq d, UserID = ID user, Token = tok,
                 ExpiresAt = time_Now e + refreshTokenDuration m, IsRevoked = False,
                 rt_CreatedAt = time_Now e, rt_UpdatedAt = time_Now e\<rparr>]\<rparr>)"
    by (simp add: row_def)
  then show ?thesis
    unfolding row_def tok_def
    by (simp add: generateTokens_def GenerateRefreshToken_cases access rand del: upt.simps)
qed

lemma generateTokens_Inr:
  assumes "generateTokens m e user d = (Inr resp, d')"
  shows "ar_RefreshToken resp \<notin> Token ` set (refresh_tokens d)"
    and "d' = d\<lparr>statements := statements d @ [RefreshTokens_Create (ar_RefreshToken resp)],
       refresh_tokens_id_seq := refresh_tokens_id_seq d + 1,
       refresh_tokens := refresh_tokens d @
         [\<lparr>rt_ID = refresh_tokens_id_seq d, UserID = ID user,
           Token = ar_RefreshToken resp,
           ExpiresAt = time_Now e + refreshTokenDuration m, IsRevoked = False,
           rt_CreatedAt = time_Now e, rt_UpdatedAt = time_Now e\<rparr>]\<rparr>"
proof -
  define tok where "tok = hex_EncodeToString (map (rand_Read_bytes e) [0..<32])"
  define row where "row = \<lparr>rt_ID = 0, UserID = ID user, Token = tok,
      ExpiresAt = time_Now e + refreshTokenDuration m, IsRevoked = False,
      rt_CreatedAt = zeroTime, rt_UpdatedAt = zeroTime\<rparr>"
  from assms have c: "refreshTokenRepository_Create e row d = (None, d')"
    and r: "ar_RefreshToken resp = tok"
    unfolding row_def tok_def
    by (auto simp add: generateTokens_def GenerateRefreshToken_cases
        split: sum.splits option.splits prod.splits simp del: upt.simps)
  have z: "rt_ID row = 0" by (simp add: row_def)
  from Create_token_None(1) [OF c z]
  show "ar_RefreshToken resp \<notin> Token ` set (refresh_tokens d)"
    by (simp add: r row_def)
  from Create_token_None(2) [OF c z]
  show "d' = d\<lparr>statements := statements d @ [RefreshTokens_Create (ar_RefreshToken resp)],
       refresh_tokens_id_seq := refresh_tokens_id_seq d + 1,
       refresh_tokens := refresh_tokens d @
         [\<lparr>rt_ID = refresh_tokens_id_seq d, UserID = ID user,
           Token = ar_RefreshToken resp,
           ExpiresAt = time_Now e + refreshTokenDuration m, IsRevoked = False,
           rt_CreatedAt = time_Now e, rt_UpdatedAt = time_Now e\<rparr>]\<rparr>"
    by (simp add: r row_def)
qed

text \<open>What a successful RefreshToken has gone through.\<close>

lemma RefreshToken_Inr_cases:
  assumes "authUseCase_RefreshToken m e t d = (Inr resp, d')"
  obtains rt user where "find (\<lambda>r. Token r = t) (refresh_tokens d) = Some rt"
    and "RefreshToken_IsValid (time_Now e) rt"
    and "find (\<lambda>u. ID u = UserID rt \<and> DeletedAt u = None) (users d) = Some user"
    and "generateTokens m e user
           (snd (refreshTokenRepository_Revoke e t
              (run (Users_FindByID (UserID rt)) (run (RefreshTokens_FindByToken t) d))))
         = (Inr resp, d')"
proof (cases "find (\<lambda>r. Token r = t) (refresh_tokens d)")
  case None
  from assms show ?thesis by (simp add: RefreshToken_not_found [OF None])
next
  case found: (Some rt)
  show ?thesis
  proof (cases "RefreshToken_IsValid (time_Now e) rt")
    case False
    show ?thesis
    proof (cases "IsRevoked rt")
      case True
      from assms show ?thesis by (simp add: RefreshToken_found_revoked [OF found True])
    next
      case not_revoked: False
      with False have expired: "RefreshToken_IsExpired (time_Now e) rt"
        by (simp add: RefreshToken_IsValid_def)
      from assms show ?thesis
        by (simp add: RefreshToken_found_expired [OF found not_revoked expired])
    qed
  next
    case valid: True
    show ?thesis
    proof (cases "find (\<lambda>u. ID u = UserID rt \<and> DeletedAt u = None) (users d)")
      case None
      from assms show ?thesis by (simp add: RefreshToken_no_user [OF found valid None])
    next
      case (Some user)
      from assms have "generateTokens m e user
           (snd (refreshTokenRepository_Revoke e t
              (run (Users_FindByID (UserID rt)) (run (RefreshTokens_FindByToken t) d))))
         = (Inr resp, d')"
        by (simp add: RefreshToken_valid [OF found valid Some])
      with found valid Some that show ?thesis by blast
    qed
  qed
qed

lemma find_append_left:
  "find P xs = Some x \<Longrightarrow> find P (xs @ ys) = Some x"
  by (induction xs) (simp_all split: if_splits)

lemma Token_update_where_revoke:
  "Token ` set (update_where P (\<lambda>r. r\<lparr>IsRevoked := True, rt_UpdatedAt := n\<rparr>) rows)
     = Token ` set rows"
  by (induction rows) (simp_all add: update_where_def)

lemma rt_ID_update_where_revoke:
  "map rt_ID (update_where P (\<lambda>r. r\<lparr>IsRevoked := True, rt_UpdatedAt := n\<rparr>) rows)
     = map rt_ID rows"
  by (induction rows) (simp_all add: update_where_def)

lemma RevokeAllByUserID_simps:
  "fst (refreshTokenRepository_RevokeAllByUserID e uid d) = None"
  "users (snd (refreshTokenRepository_RevokeAllByUserID e uid d)) = users d"
  "refresh_tokens (snd (refreshTokenRepository_RevokeAllByUserID e uid d)) =
     update_where (\<lambda>r. UserID r = uid)
       (\<lambda>r. r\<lparr>IsRevoked := True, rt_UpdatedAt := time_Now e\<rparr>) (refresh_tokens d)"
  "refresh_tokens_id_seq (snd (refreshTokenRepository_RevokeAllByUserID e uid d))
     = refresh_tokens_id_seq d"
  "statements (snd (refreshTokenRepository_RevokeAllByUserID e uid d))
     = statements d @ [RefreshTokens_RevokeAllByUserID uid]"
  by (simp_all add: refreshTokenRepository_RevokeAllByUserID_def run_def)

text \<open>An error of a valid token is none of the three token errors.\<close>

lemma generateTokens_error_Wrapped:
  assumes "fst (generateTokens m e user d) = Inl err"
  shows "\<exists>p c. err = Wrapped p c"
  using assms
  by (simp add: generateTokens_def split: sum.splits prod.splits option.splits) blast+

lemma RefreshToken_valid_error:
  assumes found: "find (\<lambda>r. Token r = t) (refresh_tokens d) = Some rt"
    and valid: "RefreshToken_IsValid (time_Now e) rt"
  shows "fst (authUseCase_RefreshToken m e t d)
           \<notin> Inl ` {ErrInvalidToken, ErrRefreshTokenRevoked, ErrRefreshTokenExpired}"
proof (cases "find (\<lambda>u. ID u = UserID rt \<and> DeletedAt u = None) (users d)")
  case None
  show ?thesis by (simp add: RefreshToken_no_user [OF found valid None])
next
  case (Some user)
  show ?thesis
  proof
    assume "fst (authUseCase_RefreshToken m e t d)
              \<in> Inl ` {ErrInvalidToken, ErrRefreshTokenRevoked, ErrRefreshTokenExpired}"
    then obtain err where err: "fst (authUseCase_RefreshToken m e t d) = Inl err"
      and kind: "err = ErrInvalidToken \<or> err = ErrRefreshTokenRevoked
                 \<or> err = ErrRefreshTokenExpired"
      by auto
    from err obtain p c where "err = Wrapped p c"
      unfolding RefreshToken_valid [OF found valid Some]
      by (blast dest: generateTokens_error_Wrapped)
    with kind show False by simp
  qed
qed

text \<open>
  The successful call on the sample database, with the response and the database it
  leaves.
\<close>

lemma demo_refresh:
  "authUseCase_RefreshToken demo_manager demo_env ''t1'' demo_db =
     (Inr \<lparr>AccessToken = ''jwt'', ar_RefreshToken = replicate 64 CHR ''0'',
           TokenType = ''Bearer'',
           ar_User = \<lparr>ur_ID = ''u1'', ur_Email = ''a@x.com'', ur_Name = ''A''\<rparr>\<rparr>,
      snd (authUseCase_RefreshToken demo_manager demo_env ''t1'' demo_db))"
    "statements (snd (authUseCase_RefreshToken demo_manager demo_env ''t1'' demo_db)) =
     [RefreshTokens_FindByToken ''t1'', Users_FindByID ''u1'', RefreshTokens_Revoke ''t1'',
      RefreshTokens_Create (replicate 64 CHR ''0'')]"
proof -
  have found: "find (\<lambda>r. Token r = ''t1'') (refresh_tokens demo_db)
                 = Some (refresh_tokens demo_db ! 0)"
    by (simp add: demo_db_simps)
  have valid: "RefreshToken_IsValid (time_Now demo_env) (refresh_tokens demo_db ! 0)"
    by (simp add: demo_db_simps demo_env_simps RefreshToken_IsValid_def
        RefreshToken_IsExpired_def)
  have user: "find (\<lambda>u. ID u = UserID (refresh_tokens demo_db ! 0) \<and> DeletedAt u = None)
                (users demo_db) = Some demo_user"
    by (simp add: demo_db_simps demo_user_def)
  define d3 where "d3 = snd (refreshTokenRepository_Revoke demo_env ''t1''
      (run (Users_FindByID (UserID (refresh_tokens demo_db ! 0)))
         (run (RefreshTokens_FindByToken ''t1'') demo_db)))"
  have eq: "authUseCase_RefreshToken demo_manager demo_env ''t1'' demo_db
              = generateTokens demo_manager demo_env demo_user d3"
    unfolding d3_def by (rule RefreshToken_valid [OF found valid user])
  have access: "JWTManager_GenerateAccessToken demo_manager demo_env (ID demo_user)
                  (Email demo_user) = Inr ''jwt''"
    by (simp add: JWTManager_GenerateAccessToken_def demo_env_simps)
  have rand: "rand_Read_err demo_env = None"
    by (simp add: demo_env_simps)
  have "Token ` set (refresh_tokens d3) = Token ` set (refresh_tokens demo_db)"
    by (simp add: d3_def Revoke_simps run_simps Token_update_where_revoke)
  moreover have "replicate 64 CHR ''0'' \<noteq> s" if "length s = 2" for s
    using that by (auto simp del: replicate.simps)
  ultimately have fresh: "hex_EncodeToString (map (rand_Read_bytes demo_env) [0..<32])
                      \<notin> Token ` set (refresh_tokens d3)"
    by (simp add: demo_env_simps demo_token demo_db_simps del: upt.simps replicate.simps)
  have owner: "demo_user \<in> set (users d3)"
    by (simp add: d3_def Revoke_simps run_simps demo_db_simps)
  have "map rt_ID (refresh_tokens d3) = map rt_ID (refresh_tokens demo_db)"
    by (simp add: d3_def Revoke_simps run_simps rt_ID_update_where_revoke)
  then have "rt_ID ` set (refresh_tokens d3) = rt_ID ` set (refresh_tokens demo_db)"
    by (metis set_map)
  then have key: "refresh_tokens_id_seq d3 \<notin> rt_ID ` set (refresh_tokens d3)"
    by (simp add: d3_def Revoke_simps run_simps demo_db_simps)
  note gen = generateTokens_ok [OF access rand key fresh owner]
  show "authUseCase_RefreshToken demo_manager demo_env ''t1'' demo_db =
     (Inr \<lparr>AccessToken = ''jwt'', ar_RefreshToken = replicate 64 CHR ''0'',
           TokenType = ''Bearer'',
           ar_User = \<lparr>ur_ID = ''u1'', ur_Email = ''a@x.com'', ur_Name = ''A''\<rparr>\<rparr>,
      snd (authUseCase_RefreshToken demo_manager demo_env ''t1'' demo_db))"
    unfolding eq gen
    by (simp add: demo_env_simps demo_token demo_user_def del: upt.simps replicate.simps)
  show "statements (snd (authUseCase_RefreshToken demo_manager demo_env ''t1'' demo_db)) =
     [RefreshTokens_FindByToken ''t1'', Users_FindByID ''u1'', RefreshTokens_Revoke ''t1'',
      RefreshTokens_Create (replicate 64 CHR ''0'')]"
    unfolding eq gen
    by (simp add: d3_def Revoke_simps run_simps demo_env_simps demo_token demo_db_simps
        del: upt.simps replicate.simps)
qed

section \<open>Every operation keeps the keys unique, and every one but the deletion keeps the revocations\<close>

































text \<open>
  The deletion of expired rows is the one operation after which a key can come back:
  once the revoked row is deleted, a row inserted under its key is not revoked.
\<close>

lemma demo_key_reuse:
  "refresh_tokens
     (execs demo_manager
        [(demo_env\<lparr>time_Now := 3000\<rparr>, Tokens_Op_DeleteExpired),
         (demo_env\<lparr>time_Now := 3000\<rparr>, Tokens_Op_Create
            \<lparr>rt_ID = 1, UserID = ''u1'', Token = ''t1'', ExpiresAt = 9000, IsRevoked = False,
             rt_CreatedAt = zeroTime, rt_UpdatedAt = zeroTime\<rparr>)]
     (execs demo_manager
        [(demo_env, Users_Op_Create demo_user),
         (demo_env, Tokens_Op_Create
            \<lparr>rt_ID = 0, UserID = ''u1'', Token = ''t1'', ExpiresAt = 2000, IsRevoked = False,
             rt_CreatedAt = zeroTime, rt_UpdatedAt = zeroTime\<rparr>),
         (demo_env, Op_Logout ''t1'')]
        empty_db))
   = [\<lparr>rt_ID = 1, UserID = ''u1'', Token = ''t1'', ExpiresAt = 9000, IsRevoked = False,
       rt_CreatedAt = 3000, rt_UpdatedAt = 3000\<rparr>]"
  by (simp add: userRepository_Create_def refreshTokenRepository_Create_def
      authUseCase_Logout_def refreshTokenRepository_Revoke_def update_where_def
      refreshTokenRepository_DeleteExpired_def
      Let_def run_def empty_db_def demo_user_def demo_env_def zeroTime_def)

section \<open>Rotation: a refresh token is redeemed once\<close>

text \<open>
  C1, as amended. Let the presented token value designate a record that is valid at the
  time of the call. If the owning account is found (it exists and is not soft-deleted),
  the access token is signed, the random source delivers, and the new record can be
  inserted (its token value is not yet in the table and the next number of the sequence
  is not yet a key), then RefreshToken returns a token pair. Whenever RefreshToken returns
  a token pair, the new refresh token differs from the presented one and was not in the
  table, its record is stored unrevoked for the same account, every record with the
  presented token value is revoked, and a second call with the presented token value
  fails with \<open>ErrRefreshTokenRevoked\<close>, in any environment and at any time.
\<close>

theorem C1_RefreshToken_once:
  assumes found: "find (\<lambda>r. Token r = t) (refresh_tokens d) = Some rt"
    and valid: "RefreshToken_IsValid (time_Now e) rt"
  shows "(find (\<lambda>u. ID u = UserID rt \<and> DeletedAt u = None) (users d) = Some user
          \<and> JWTManager_GenerateAccessToken m e (ID user) (Email user) = Inr accessToken
          \<and> rand_Read_err e = None
          \<and> refresh_tokens_id_seq d \<notin> rt_ID ` set (refresh_tokens d)
          \<and> hex_EncodeToString (map (rand_Read_bytes e) [0..<32])
               \<notin> Token ` set (refresh_tokens d)
          \<longrightarrow> (\<exists>resp. fst (authUseCase_RefreshToken m e t d) = Inr resp))
     \<and> (authUseCase_RefreshToken m e t d = (Inr resp, d')
          \<longrightarrow> ar_RefreshToken resp \<noteq> t
            \<and> find (\<lambda>r. Token r = ar_RefreshToken resp) (refresh_tokens d) = None
            \<and> (\<exists>new \<in> set (refresh_tokens d'). Token new = ar_RefreshToken resp
                   \<and> UserID new = UserID rt \<and> \<not> IsRevoked new)
            \<and> list_all (\<lambda>r. Token r = t \<longrightarrow> IsRevoked r) (refresh_tokens d')
            \<and> (\<forall>m2 e2. fst (authUseCase_RefreshToken m2 e2 t d')
                          = Inl ErrRefreshTokenRevoked))"
proof (intro conjI impI)
  assume a: "find (\<lambda>u. ID u = UserID rt \<and> DeletedAt u = None) (users d) = Some user
          \<and> JWTManager_GenerateAccessToken m e (ID user) (Email user) = Inr accessToken
          \<and> rand_Read_err e = None
          \<and> refresh_tokens_id_seq d \<notin> rt_ID ` set (refresh_tokens d)
          \<and> hex_EncodeToString (map (rand_Read_bytes e) [0..<32])
               \<notin> Token ` set (refresh_tokens d)"
  define d3 where "d3 = snd (refreshTokenRepository_Revoke e t
              (run (Users_FindByID (UserID rt)) (run (RefreshTokens_FindByToken t) d)))"
  from a have user: "find (\<lambda>u. ID u = UserID rt \<and> DeletedAt u = None) (users d) = Some user"
    and access: "JWTManager_GenerateAccessToken m e (ID user) (Email user) = Inr accessToken"
    and rand: "rand_Read_err e = None"
    and key: "refresh_tokens_id_seq d \<notin> rt_ID ` set (refresh_tokens d)"
    and fresh: "hex_EncodeToString (map (rand_Read_bytes e) [0..<32])
               \<notin> Token ` set (refresh_tokens d)"
    by blast+
  from user have "user \<in> set (users d)"
    by (auto simp: find_Some_iff)
  then have owner: "user \<in> set (users d3)"
    by (simp add: d3_def Revoke_simps run_simps)
  have "Token ` set (refresh_tokens d3) = Token ` set (refresh_tokens d)"
    by (simp add: d3_def Revoke_simps run_simps Token_update_where_revoke)
  with fresh have fresh3: "hex_EncodeToString (map (rand_Read_bytes e) [0..<32])
               \<notin> Token ` set (refresh_tokens d3)"
    by (simp del: upt.simps)
  have "map rt_ID (refresh_tokens d3) = map rt_ID (refresh_tokens d)"
    by (simp add: d3_def Revoke_simps run_simps rt_ID_update_where_revoke)
  then have "rt_ID ` set (refresh_tokens d3) = rt_ID ` set (refresh_tokens d)"
    by (metis set_map)
  with key have key3: "refresh_tokens_id_seq d3 \<notin> rt_ID ` set (refresh_tokens d3)"
    by (simp add: d3_def Revoke_simps run_simps)
  have "authUseCase_RefreshToken m e t d = generateTokens m e user d3"
    unfolding d3_def by (rule RefreshToken_valid [OF found valid user])
  then show "\<exists>resp. fst (authUseCase_RefreshToken m e t d) = Inr resp"
    by (simp add: generateTokens_ok [OF access rand key3 fresh3 owner] del: upt.simps)
next
  assume run: "authUseCase_RefreshToken m e t d = (Inr resp, d')"
  from run obtain rt' user'
    where found': "find (\<lambda>r. Token r = t) (refresh_tokens d) = Some rt'"
    and user': "find (\<lambda>u. ID u = UserID rt' \<and> DeletedAt u = None) (users d) = Some user'"
    and gen: "generateTokens m e user'
           (snd (refreshTokenRepository_Revoke e t
              (run (Users_FindByID (UserID rt')) (run (RefreshTokens_FindByToken t) d))))
         = (Inr resp, d')"
    by (rule RefreshToken_Inr_cases)
  from found found' have rt': "rt' = rt" by simp
  define g where "g = (\<lambda>r::RefreshToken. r\<lparr>IsRevoked := True, rt_UpdatedAt := time_Now e\<rparr>)"
  define new where "new = \<lparr>rt_ID = refresh_tokens_id_seq d, UserID = ID user',
           Token = ar_RefreshToken resp,
           ExpiresAt = time_Now e + refreshTokenDuration m, IsRevoked = False,
           rt_CreatedAt = time_Now e, rt_UpdatedAt = time_Now e\<rparr>"
  have g_simps: "IsRevoked (g r)" "Token (g r) = Token r" for r
    by (simp_all add: g_def)
  have toks: "refresh_tokens d' = update_where (\<lambda>r. Token r = t) g (refresh_tokens d) @ [new]"
    by (subst generateTokens_Inr(2) [OF gen]) (simp add: Revoke_simps run_simps g_def new_def)
  from generateTokens_Inr(1) [OF gen]
  have fresh: "ar_RefreshToken resp \<notin> Token ` set (refresh_tokens d)"
    by (simp add: Revoke_simps run_simps Token_update_where_revoke)
  from found have t: "Token rt = t" and rt_in: "rt \<in> set (refresh_tokens d)"
    by (auto simp: find_Some_iff)
  from fresh rt_in t show fresh_t: "ar_RefreshToken resp \<noteq> t"
    by (auto simp: image_iff)
  from fresh show "find (\<lambda>r. Token r = ar_RefreshToken resp) (refresh_tokens d) = None"
    by (auto simp: find_None_iff image_iff)
  from user' have "ID user' = UserID rt"
    by (auto simp: find_Some_iff rt')
  then have "new \<in> set (refresh_tokens d') \<and> Token new = ar_RefreshToken resp
                   \<and> UserID new = UserID rt \<and> \<not> IsRevoked new"
    by (simp add: toks new_def)
  then show "\<exists>new \<in> set (refresh_tokens d'). Token new = ar_RefreshToken resp
                   \<and> UserID new = UserID rt \<and> \<not> IsRevoked new"
    by blast
  have "Token r' = t \<longrightarrow> IsRevoked r'" if "r' \<in> set (refresh_tokens d')" for r'
  proof (cases "r' = new")
    case True
    with fresh_t show ?thesis by (simp add: new_def)
  next
    case False
    with that have "r' \<in> set (update_where (\<lambda>r. Token r = t) g (refresh_tokens d))"
      by (simp add: toks)
    then obtain r where r: "r' = (if Token r = t then g r else r)"
      by (blast dest: in_set_update_where)
    show ?thesis
    proof (cases "Token r = t")
      case True
      with r show ?thesis by (simp add: g_simps)
    next
      case False
      with r show ?thesis by simp
    qed
  qed
  then show "list_all (\<lambda>r. Token r = t \<longrightarrow> IsRevoked r) (refresh_tokens d')"
    by (simp add: list_all_iff)
  have "find (\<lambda>r. Token r = t) (update_where (\<lambda>r. Token r = t) g (refresh_tokens d))
          = Some (g rt)"
    using found t by (simp add: find_update_where g_simps)
  then have "find (\<lambda>r. Token r = t) (refresh_tokens d') = Some (g rt)"
    unfolding toks by (rule find_append_left)
  then show "\<forall>m2 e2. fst (authUseCase_RefreshToken m2 e2 t d') = Inl ErrRefreshTokenRevoked"
    by (simp add: RefreshToken_found_revoked g_simps)
qed

theorem C1_RefreshToken_once_witness:
  "find (\<lambda>r. Token r = ''t1'') (refresh_tokens demo_db) = Some (refresh_tokens demo_db ! 0)
   \<and> RefreshToken_IsValid (time_Now demo_env) (refresh_tokens demo_db ! 0)
   \<and> find (\<lambda>u. ID u = UserID (refresh_tokens demo_db ! 0) \<and> DeletedAt u = None)
        (users demo_db) = Some demo_user
   \<and> JWTManager_GenerateAccessToken demo_manager demo_env (ID demo_user) (Email demo_user)
        = Inr ''jwt''
   \<and> rand_Read_err demo_env = None
   \<and> refresh_tokens_id_seq demo_db \<notin> rt_ID ` set (refresh_tokens demo_db)
   \<and> hex_EncodeToString (map (rand_Read_bytes demo_env) [0..<32])
        \<notin> Token ` set (refresh_tokens demo_db)
   \<and> fst (authUseCase_RefreshToken demo_manager demo_env ''t1'' demo_db) =
        Inr \<lparr>AccessToken = ''jwt'', ar_RefreshToken = replicate 64 CHR ''0'',
             TokenType = ''Bearer'',
             ar_User = \<lparr>ur_ID = ''u1'', ur_Email = ''a@x.com'', ur_Name = ''A''\<rparr>\<rparr>
   \<and> fst (authUseCase_RefreshToken demo_manager demo_env ''t1''
            (snd (authUseCase_RefreshToken demo_manager demo_env ''t1'' demo_db)))
        = Inl ErrRefreshTokenRevoked"
proof -
  have found: "find (\<lambda>r. Token r = ''t1'') (refresh_tokens demo_db)
                 = Some (refresh_tokens demo_db ! 0)"
    by (simp add: demo_db_simps)
  have valid: "RefreshToken_IsValid (time_Now demo_env) (refresh_tokens demo_db ! 0)"
    by (simp add: demo_db_simps demo_env_simps RefreshToken_IsValid_def
        RefreshToken_IsExpired_def)
  have user: "find (\<lambda>u. ID u = UserID (refresh_tokens demo_db ! 0) \<and> DeletedAt u = None)
                (users demo_db) = Some demo_user"
    by (simp add: demo_db_simps demo_user_def)
  have access: "JWTManager_GenerateAccessToken demo_manager demo_env (ID demo_user)
                  (Email demo_user) = Inr ''jwt''"
    by (simp add: JWTManager_GenerateAccessToken_def demo_env_simps)
  have rand: "rand_Read_err demo_env = None"
    by (simp add: demo_env_simps)
  have key: "refresh_tokens_id_seq demo_db \<notin> rt_ID ` set (refresh_tokens demo_db)"
    by (simp add: demo_db_simps)
  have "replicate 64 CHR ''0'' \<noteq> s" if "length s = 2" for s
    using that by (auto simp del: replicate.simps)
  then have fresh: "hex_EncodeToString (map (rand_Read_bytes demo_env) [0..<32])
                      \<notin> Token ` set (refresh_tokens demo_db)"
    by (simp add: demo_env_simps demo_token demo_db_simps del: upt.simps replicate.simps)
  note c1 = C1_RefreshToken_once [OF found valid, of demo_user demo_manager "''jwt''"
      "\<lparr>AccessToken = ''jwt'', ar_RefreshToken = replicate 64 CHR ''0'',
        TokenType = ''Bearer'',
        ar_User = \<lparr>ur_ID = ''u1'', ur_Email = ''a@x.com'', ur_Name = ''A''\<rparr>\<rparr>"
      "snd (authUseCase_RefreshToken demo_manager demo_env ''t1'' demo_db)"]
  from c1 user access rand key fresh
  have ex: "\<exists>resp. fst (authUseCase_RefreshToken demo_manager demo_env ''t1'' demo_db)
              = Inr resp"
    by blast
  have first: "fst (authUseCase_RefreshToken demo_manager demo_env ''t1'' demo_db) =
        Inr \<lparr>AccessToken = ''jwt'', ar_RefreshToken = replicate 64 CHR ''0'',
             TokenType = ''Bearer'',
             ar_User = \<lparr>ur_ID = ''u1'', ur_Email = ''a@x.com'', ur_Name = ''A''\<rparr>\<rparr>"
    by (subst demo_refresh(1)) simp
  from c1 demo_refresh(1)
  have second: "fst (authUseCase_RefreshToken demo_manager demo_env ''t1''
            (snd (authUseCase_RefreshToken demo_manager demo_env ''t1'' demo_db)))
        = Inl ErrRefreshTokenRevoked"
    by blast
  show ?thesis
    by (intro conjI) (rule found valid user access rand key fresh first second)+
qed

text \<open>
  C1 as stated fails: the token \<open>t4\<close> of the sample database designates a valid record,
  yet RefreshToken returns no token pair for it and does not mark the record revoked,
  because the owning account is soft-deleted.
\<close>

theorem C1_counterexample:
  "find (\<lambda>r. Token r = ''t4'') (refresh_tokens demo_db) = Some (refresh_tokens demo_db ! 3)
   \<and> RefreshToken_IsValid (time_Now demo_env) (refresh_tokens demo_db ! 3)
   \<and> fst (authUseCase_RefreshToken demo_manager demo_env ''t4'' demo_db) = Inl ErrUserNotFound
   \<and> refresh_tokens (snd (authUseCase_RefreshToken demo_manager demo_env ''t4'' demo_db))
       = refresh_tokens demo_db
   \<and> \<not> IsRevoked
         (refresh_tokens (snd (authUseCase_RefreshToken demo_manager demo_env ''t4'' demo_db))
            ! 3)"
proof -
  have h1: "find (\<lambda>r. Token r = ''t4'') (refresh_tokens demo_db)
              = Some (refresh_tokens demo_db ! 3)"
    by (simp add: demo_db_simps)
  have h2: "RefreshToken_IsValid (time_Now demo_env) (refresh_tokens demo_db ! 3)"
    by (simp add: demo_db_simps demo_env_simps RefreshToken_IsValid_def
        RefreshToken_IsExpired_def)
  have h3: "find (\<lambda>u. ID u = UserID (refresh_tokens demo_db ! 3) \<and> DeletedAt u = None)
              (users demo_db) = None"
    by (simp add: demo_db_simps demo_user_def)
  note r = RefreshToken_no_user [OF h1 h2 h3, of demo_manager]
  have 1: "fst (authUseCase_RefreshToken demo_manager demo_env ''t4'' demo_db)
             = Inl ErrUserNotFound"
    by (simp add: r)
  have 2: "refresh_tokens (snd (authUseCase_RefreshToken demo_manager demo_env ''t4'' demo_db))
             = refresh_tokens demo_db"
    by (simp add: r run_simps)
  have 3: "\<not> IsRevoked
         (refresh_tokens (snd (authUseCase_RefreshToken demo_manager demo_env ''t4'' demo_db))
            ! 3)"
    unfolding 2 by (simp add: demo_db_simps)
  show ?thesis
    by (intro conjI) (rule h1 h2 1 2 3)+
qed

section \<open>Validity of a refresh-token record\<close>

text \<open>
  C2, as amended. A record is valid exactly when it is not revoked and the current time is
  not after its expiry: \<open>now \<le> expires_at\<close>. At the instant \<open>now = expires_at\<close> a
  record that is not revoked is still valid.
\<close>

theorem C2_IsValid_iff:
  "RefreshToken_IsValid now rt \<longleftrightarrow> \<not> IsRevoked rt \<and> now \<le> ExpiresAt rt"
  by (auto simp: RefreshToken_IsValid_def RefreshToken_IsExpired_def)

text \<open>
  C2 as stated fails: a record that is not revoked and expires at instant 100 is valid at
  instant 100, although \<open>now < expires_at\<close> is false there.
\<close>

theorem C2_counterexample:
  "\<not> (RefreshToken_IsValid 100
        \<lparr>rt_ID = 1, UserID = ''u1'', Token = ''t1'', ExpiresAt = 100, IsRevoked = False,
         rt_CreatedAt = 0, rt_UpdatedAt = 0\<rparr>
      \<longleftrightarrow>
        \<not> IsRevoked
          \<lparr>rt_ID = 1, UserID = ''u1'', Token = ''t1'', ExpiresAt = 100, IsRevoked = False,
           rt_CreatedAt = 0, rt_UpdatedAt = 0\<rparr>
        \<and> 100 < ExpiresAt
          \<lparr>rt_ID = 1, UserID = ''u1'', Token = ''t1'', ExpiresAt = 100, IsRevoked = False,
           rt_CreatedAt = 0, rt_UpdatedAt = 0\<rparr>)"
  by (simp add: RefreshToken_IsValid_def RefreshToken_IsExpired_def)

section \<open>Login does not reveal whether an account exists\<close>

text \<open>
  C3. Take two runs of Login with the same email and password: in the first the store has
  no live account with that email, in the second it has one but bcrypt rejects the
  password against the stored hash. Both runs return the same error value,
  \<open>ErrInvalidCredentials\<close>.
\<close>

theorem C3_Login_same_error:
  assumes absent: "\<forall>u \<in> set (users d1). Email u = email \<longrightarrow> DeletedAt u \<noteq> None"
    and present: "find (\<lambda>u. Email u = email \<and> DeletedAt u = None) (users d2) = Some user"
    and wrong: "bcrypt_CompareHashAndPassword e2 (Password user) password \<noteq> None"
  shows "fst (authUseCase_Login m e1 email password d1) = Inl ErrInvalidCredentials
       \<and> fst (authUseCase_Login m e2 email password d2) = Inl ErrInvalidCredentials"
proof -
  from absent have "find (\<lambda>u. Email u = email \<and> DeletedAt u = None) (users d1) = None"
    by (auto simp: find_None_iff)
  then have a: "fst (authUseCase_Login m e1 email password d1) = Inl ErrInvalidCredentials"
    by (simp add: authUseCase_Login_def userRepository_FindByEmail_def)
  from wrong obtain err
    where "bcrypt_CompareHashAndPassword e2 (Password user) password = Some err"
    by blast
  with present
  have b: "fst (authUseCase_Login m e2 email password d2) = Inl ErrInvalidCredentials"
    by (simp add: authUseCase_Login_def userRepository_FindByEmail_def)
  from a b show ?thesis by simp
qed

theorem C3_Login_same_error_witness:
  "users empty_db = []
   \<and> find (\<lambda>u. Email u = ''a@x.com'' \<and> DeletedAt u = None) (users demo_db) = Some demo_user
   \<and> bcrypt_CompareHashAndPassword demo_env (Password demo_user) ''guess'' \<noteq> None
   \<and> fst (authUseCase_Login demo_manager demo_env ''a@x.com'' ''guess'' empty_db)
       = Inl ErrInvalidCredentials
   \<and> fst (authUseCase_Login demo_manager demo_env ''a@x.com'' ''guess'' demo_db)
       = Inl ErrInvalidCredentials"
proof -
  have h1: "\<forall>u \<in> set (users empty_db). Email u = ''a@x.com'' \<longrightarrow> DeletedAt u \<noteq> None"
    by (simp add: empty_db_def)
  have h2: "find (\<lambda>u. Email u = ''a@x.com'' \<and> DeletedAt u = None) (users demo_db)
              = Some demo_user"
    by (simp add: demo_db_simps demo_user_def)
  have h3: "bcrypt_CompareHashAndPassword demo_env (Password demo_user) ''guess'' \<noteq> None"
    by (simp add: demo_env_simps demo_user_def)
  have "users empty_db = []"
    by (simp add: empty_db_def)
  with C3_Login_same_error [OF h1 h2 h3] h2 h3 show ?thesis by blast
qed

section \<open>The failures of RefreshToken\<close>

text \<open>
  C4. RefreshToken returns \<open>ErrInvalidToken\<close> when no record has the presented token
  value, \<open>ErrRefreshTokenRevoked\<close> when the matching record is revoked, and
  \<open>ErrRefreshTokenExpired\<close> when the matching record is not revoked but expired; when
  the matching record is valid it returns none of the three. The three error values are
  pairwise distinct, and so are their messages.
\<close>

theorem C4_RefreshToken_failure_kinds:
  "(find (\<lambda>r. Token r = t) (refresh_tokens d) = None \<longrightarrow>
      fst (authUseCase_RefreshToken m e t d) = Inl ErrInvalidToken)
 \<and> (\<forall>rt. find (\<lambda>r. Token r = t) (refresh_tokens d) = Some rt \<and> IsRevoked rt \<longrightarrow>
      fst (authUseCase_RefreshToken m e t d) = Inl ErrRefreshTokenRevoked)
 \<and> (\<forall>rt. find (\<lambda>r. Token r = t) (refresh_tokens d) = Some rt \<and> \<not> IsRevoked rt
          \<and> RefreshToken_IsExpired (time_Now e) rt \<longrightarrow>
      fst (authUseCase_RefreshToken m e t d) = Inl ErrRefreshTokenExpired)
 \<and> (\<forall>rt. find (\<lambda>r. Token r = t) (refresh_tokens d) = Some rt \<and> \<not> IsRevoked rt
          \<and> \<not> RefreshToken_IsExpired (time_Now e) rt \<longrightarrow>
      fst (authUseCase_RefreshToken m e t d)
        \<notin> Inl ` {ErrInvalidToken, ErrRefreshTokenRevoked, ErrRefreshTokenExpired})
 \<and> distinct [ErrInvalidToken, ErrRefreshTokenRevoked, ErrRefreshTokenExpired]
 \<and> distinct (map Error [ErrInvalidToken, ErrRefreshTokenRevoked, ErrRefreshTokenExpired])"
proof -
  have 4: "\<forall>rt. find (\<lambda>r. Token r = t) (refresh_tokens d) = Some rt \<and> \<not> IsRevoked rt
          \<and> \<not> RefreshToken_IsExpired (time_Now e) rt \<longrightarrow>
      fst (authUseCase_RefreshToken m e t d)
        \<notin> Inl ` {ErrInvalidToken, ErrRefreshTokenRevoked, ErrRefreshTokenExpired}"
  proof (intro allI impI)
    fix rt
    assume a: "find (\<lambda>r. Token r = t) (refresh_tokens d) = Some rt \<and> \<not> IsRevoked rt
          \<and> \<not> RefreshToken_IsExpired (time_Now e) rt"
    then have found: "find (\<lambda>r. Token r = t) (refresh_tokens d) = Some rt"
      and valid: "RefreshToken_IsValid (time_Now e) rt"
      by (simp_all add: RefreshToken_IsValid_def)
    show "fst (authUseCase_RefreshToken m e t d)
        \<notin> Inl ` {ErrInvalidToken, ErrRefreshTokenRevoked, ErrRefreshTokenExpired}"
      by (rule RefreshToken_valid_error [OF found valid])
  qed
  have rest: "(find (\<lambda>r. Token r = t) (refresh_tokens d) = None \<longrightarrow>
      fst (authUseCase_RefreshToken m e t d) = Inl ErrInvalidToken)"
   "(\<forall>rt. find (\<lambda>r. Token r = t) (refresh_tokens d) = Some rt \<and> IsRevoked rt \<longrightarrow>
      fst (authUseCase_RefreshToken m e t d) = Inl ErrRefreshTokenRevoked)"
   "(\<forall>rt. find (\<lambda>r. Token r = t) (refresh_tokens d) = Some rt \<and> \<not> IsRevoked rt
          \<and> RefreshToken_IsExpired (time_Now e) rt \<longrightarrow>
      fst (authUseCase_RefreshToken m e t d) = Inl ErrRefreshTokenExpired)"
   "distinct [ErrInvalidToken, ErrRefreshTokenRevoked, ErrRefreshTokenExpired]"
   "distinct (map Error [ErrInvalidToken, ErrRefreshTokenRevoked, ErrRefreshTokenExpired])"
    by (simp_all add: RefreshToken_not_found RefreshToken_found_revoked
        RefreshToken_found_expired)
  show ?thesis
    by (intro conjI) (rule rest 4)+
qed

theorem C4_RefreshToken_failure_kinds_witness:
  "find (\<lambda>r. Token r = ''t0'') (refresh_tokens demo_db) = None
   \<and> fst (authUseCase_RefreshToken demo_manager demo_env ''t0'' demo_db) = Inl ErrInvalidToken
   \<and> IsRevoked (the (find (\<lambda>r. Token r = ''t2'') (refresh_tokens demo_db)))
   \<and> fst (authUseCase_RefreshToken demo_manager demo_env ''t2'' demo_db)
       = Inl ErrRefreshTokenRevoked
   \<and> \<not> IsRevoked (the (find (\<lambda>r. Token r = ''t3'') (refresh_tokens demo_db)))
   \<and> RefreshToken_IsExpired (time_Now demo_env)
        (the (find (\<lambda>r. Token r = ''t3'') (refresh_tokens demo_db)))
   \<and> fst (authUseCase_RefreshToken demo_manager demo_env ''t3'' demo_db)
       = Inl ErrRefreshTokenExpired
   \<and> \<not> IsRevoked (the (find (\<lambda>r. Token r = ''t1'') (refresh_tokens demo_db)))
   \<and> \<not> RefreshToken_IsExpired (time_Now demo_env)
        (the (find (\<lambda>r. Token r = ''t1'') (refresh_tokens demo_db)))
   \<and> fst (authUseCase_RefreshToken demo_manager demo_env ''t1'' demo_db)
       \<notin> Inl ` {ErrInvalidToken, ErrRefreshTokenRevoked, ErrRefreshTokenExpired}"
  using C4_RefreshToken_failure_kinds [of "''t0''" demo_db demo_manager demo_env]
    C4_RefreshToken_failure_kinds [of "''t1''" demo_db demo_manager demo_env]
    C4_RefreshToken_failure_kinds [of "''t2''" demo_db demo_manager demo_env]
    C4_RefreshToken_failure_kinds [of "''t3''" demo_db demo_manager demo_env]
  by (simp add: demo_db_simps demo_env_simps RefreshToken_IsExpired_def)

section \<open>The order of the steps of a successful RefreshToken\<close>

text \<open>
  C5, as amended. A RefreshToken call that returns a token pair has run exactly four
  statements, in this order: it looks the presented token up, looks the owning account
  up, revokes the presented token, and inserts the record of the new pair. The account
  lookup comes before the revocation, and the revocation before the new pair is issued.
\<close>

theorem C5_RefreshToken_order:
  assumes "authUseCase_RefreshToken m e t d = (Inr resp, d')"
  shows "\<exists>rt. find (\<lambda>r. Token r = t) (refresh_tokens d) = Some rt
     \<and> statements d' = statements d @
          [RefreshTokens_FindByToken t, Users_FindByID (UserID rt), RefreshTokens_Revoke t,
           RefreshTokens_Create (ar_RefreshToken resp)]
     \<and> precedes (Users_FindByID (UserID rt)) (RefreshTokens_Revoke t)
          (drop (length (statements d)) (statements d'))
     \<and> precedes (RefreshTokens_Revoke t) (RefreshTokens_Create (ar_RefreshToken resp))
          (drop (length (statements d)) (statements d'))"
proof -
  from assms obtain rt user
    where found: "find (\<lambda>r. Token r = t) (refresh_tokens d) = Some rt"
    and gen: "generateTokens m e user
           (snd (refreshTokenRepository_Revoke e t
              (run (Users_FindByID (UserID rt)) (run (RefreshTokens_FindByToken t) d))))
         = (Inr resp, d')"
    by (rule RefreshToken_Inr_cases)
  have log: "statements d' = statements d @
          [RefreshTokens_FindByToken t, Users_FindByID (UserID rt), RefreshTokens_Revoke t,
           RefreshTokens_Create (ar_RefreshToken resp)]"
    by (subst generateTokens_Inr(2) [OF gen]) (simp add: Revoke_simps run_simps)
  have "precedes (Users_FindByID (UserID rt)) (RefreshTokens_Revoke t)
          (drop (length (statements d)) (statements d'))"
    and "precedes (RefreshTokens_Revoke t) (RefreshTokens_Create (ar_RefreshToken resp))
          (drop (length (statements d)) (statements d'))"
    unfolding log by simp_all
  with found log show ?thesis by blast
qed

theorem C5_RefreshToken_order_witness:
  "statements (snd (authUseCase_RefreshToken demo_manager demo_env ''t1'' demo_db)) =
     statements demo_db @
       [RefreshTokens_FindByToken ''t1'', Users_FindByID ''u1'', RefreshTokens_Revoke ''t1'',
        RefreshTokens_Create (replicate 64 CHR ''0'')]"
proof -
  from C5_RefreshToken_order [OF demo_refresh(1)]
  obtain rt where "find (\<lambda>r. Token r = ''t1'') (refresh_tokens demo_db) = Some rt"
    and log: "statements (snd (authUseCase_RefreshToken demo_manager demo_env ''t1'' demo_db))
      = statements demo_db @
          [RefreshTokens_FindByToken ''t1'', Users_FindByID (UserID rt),
           RefreshTokens_Revoke ''t1'', RefreshTokens_Create (replicate 64 CHR ''0'')]"
    by auto
  then have "UserID rt = ''u1''"
    by (auto simp: demo_db_simps)
  with log show ?thesis by simp
qed

text \<open>
  C5 as stated fails: in the successful call on the sample database the revocation of the
  presented token does not come before the lookup of the owning account.
\<close>

theorem C5_counterexample:
  "fst (authUseCase_RefreshToken demo_manager demo_env ''t1'' demo_db) =
     Inr \<lparr>AccessToken = ''jwt'', ar_RefreshToken = replicate 64 CHR ''0'',
          TokenType = ''Bearer'',
          ar_User = \<lparr>ur_ID = ''u1'', ur_Email = ''a@x.com'', ur_Name = ''A''\<rparr>\<rparr>
   \<and> \<not> precedes (RefreshTokens_Revoke ''t1'') (Users_FindByID ''u1'')
         (statements (snd (authUseCase_RefreshToken demo_manager demo_env ''t1'' demo_db)))"
proof -
  have "fst (authUseCase_RefreshToken demo_manager demo_env ''t1'' demo_db) =
     Inr \<lparr>AccessToken = ''jwt'', ar_RefreshToken = replicate 64 CHR ''0'',
          TokenType = ''Bearer'',
          ar_User = \<lparr>ur_ID = ''u1'', ur_Email = ''a@x.com'', ur_Name = ''A''\<rparr>\<rparr>"
    by (subst demo_refresh(1)) simp
  moreover
  have "\<not> precedes (RefreshTokens_Revoke ''t1'') (Users_FindByID ''u1'')
         (statements (snd (authUseCase_RefreshToken demo_manager demo_env ''t1'' demo_db)))"
    unfolding demo_refresh(2) by simp
  ultimately show ?thesis by (rule conjI)
qed

section \<open>Once revoked, always revoked\<close>



section \<open>Logout\<close>

text \<open>
  C7. Logout never returns an error, whatever the token value matches. It leaves the
  accounts alone and keeps every row of the token table in place: a row whose token value
  differs from the argument is unchanged, a row whose token value equals it has its
  revoked flag set (with gorm's update timestamp). When no row matches, the table is
  unchanged.
\<close>

theorem C7_Logout_frame:
  "fst (authUseCase_Logout e t d) = None
 \<and> users (snd (authUseCase_Logout e t d)) = users d
 \<and> length (refresh_tokens (snd (authUseCase_Logout e t d))) = length (refresh_tokens d)
 \<and> (\<forall>i < length (refresh_tokens d).
       (Token (refresh_tokens d ! i) \<noteq> t \<longrightarrow>
          refresh_tokens (snd (authUseCase_Logout e t d)) ! i = refresh_tokens d ! i)
     \<and> (Token (refresh_tokens d ! i) = t \<longrightarrow>
          refresh_tokens (snd (authUseCase_Logout e t d)) ! i =
            (refresh_tokens d ! i)\<lparr>IsRevoked := True, rt_UpdatedAt := time_Now e\<rparr>))
 \<and> ((\<forall>r \<in> set (refresh_tokens d). Token r \<noteq> t) \<longrightarrow>
       refresh_tokens (snd (authUseCase_Logout e t d)) = refresh_tokens d)"
  by (simp add: authUseCase_Logout_def refreshTokenRepository_Revoke_def run_def
      length_update_where nth_update_where update_where_no_match)

theorem C7_Logout_frame_witness:
  "fst (authUseCase_Logout demo_env ''t1'' demo_db) = None
   \<and> (2::nat) < length (refresh_tokens demo_db)
   \<and> Token (refresh_tokens demo_db ! 0) = ''t1''
   \<and> IsRevoked (refresh_tokens (snd (authUseCase_Logout demo_env ''t1'' demo_db)) ! 0)
   \<and> Token (refresh_tokens demo_db ! 2) \<noteq> ''t1''
   \<and> refresh_tokens (snd (authUseCase_Logout demo_env ''t1'' demo_db)) ! 2
       = refresh_tokens demo_db ! 2
   \<and> fst (authUseCase_Logout demo_env ''t2'' demo_db) = None
   \<and> ''t0'' \<notin> Token ` set (refresh_tokens demo_db)
   \<and> fst (authUseCase_Logout demo_env ''t0'' demo_db) = None
   \<and> refresh_tokens (snd (authUseCase_Logout demo_env ''t0'' demo_db)) = refresh_tokens demo_db"
  using C7_Logout_frame [of demo_env "''t1''" demo_db]
    C7_Logout_frame [of demo_env "''t2''" demo_db]
    C7_Logout_frame [of demo_env "''t0''" demo_db]
  by (simp add: demo_db_simps demo_env_simps)

section \<open>LogoutAll\<close>

text \<open>
  C8. After LogoutAll for an account has returned without error, every refresh-token
  record of that account is revoked, the accounts and the records of other accounts are
  unchanged, and RefreshToken with a token value that designated a record of that account
  fails with \<open>ErrRefreshTokenRevoked\<close>, whoever calls it and whenever.
\<close>

theorem C8_LogoutAll_revokes_all:
  assumes "authUseCase_LogoutAll e uid d = (None, d')"
  shows "list_all (\<lambda>r. UserID r = uid \<longrightarrow> IsRevoked r) (refresh_tokens d')
   \<and> users d' = users d
   \<and> length (refresh_tokens d') = length (refresh_tokens d)
   \<and> (\<forall>i < length (refresh_tokens d). UserID (refresh_tokens d ! i) \<noteq> uid \<longrightarrow>
          refresh_tokens d' ! i = refresh_tokens d ! i)
   \<and> (\<forall>t rt m2 e2.
          find (\<lambda>r. Token r = t) (refresh_tokens d) = Some rt \<and> UserID rt = uid \<longrightarrow>
          fst (authUseCase_RefreshToken m2 e2 t d') = Inl ErrRefreshTokenRevoked)"
proof -
  define g where "g = (\<lambda>r::RefreshToken. r\<lparr>IsRevoked := True, rt_UpdatedAt := time_Now e\<rparr>)"
  define P where "P = (\<lambda>r::RefreshToken. UserID r = uid)"
  from assms have "d' = snd (authUseCase_LogoutAll e uid d)" by simp
  then have d': "d' = snd (refreshTokenRepository_RevokeAllByUserID e uid d)"
    by (simp add: authUseCase_LogoutAll_def)
  have toks: "refresh_tokens d' = update_where P g (refresh_tokens d)"
    unfolding d' P_def g_def by (simp add: RevokeAllByUserID_simps)
  have g_simps: "IsRevoked (g r)" "UserID (g r) = UserID r" "Token (g r) = Token r" for r
    by (simp_all add: g_def)
  have 1: "list_all (\<lambda>r. UserID r = uid \<longrightarrow> IsRevoked r) (refresh_tokens d')"
  proof -
    have "UserID r' = uid \<longrightarrow> IsRevoked r'" if "r' \<in> set (refresh_tokens d')" for r'
    proof -
      from that obtain r where r: "r' = (if P r then g r else r)"
        unfolding toks by (blast dest: in_set_update_where)
      show ?thesis
      proof (cases "P r")
        case True
        with r show ?thesis by (simp add: g_simps)
      next
        case False
        with r show ?thesis by (simp add: P_def)
      qed
    qed
    then show ?thesis by (simp add: list_all_iff)
  qed
  have 2: "users d' = users d"
    unfolding d' by (simp add: RevokeAllByUserID_simps)
  have 3: "length (refresh_tokens d') = length (refresh_tokens d)"
    unfolding toks by (simp add: length_update_where)
  have 4: "\<forall>i < length (refresh_tokens d). UserID (refresh_tokens d ! i) \<noteq> uid \<longrightarrow>
          refresh_tokens d' ! i = refresh_tokens d ! i"
    unfolding toks by (simp add: nth_update_where P_def)
  have 5: "\<forall>t rt m2 e2.
          find (\<lambda>r. Token r = t) (refresh_tokens d) = Some rt \<and> UserID rt = uid \<longrightarrow>
          fst (authUseCase_RefreshToken m2 e2 t d') = Inl ErrRefreshTokenRevoked"
  proof (intro allI impI)
    fix t rt m2 e2
    assume a: "find (\<lambda>r. Token r = t) (refresh_tokens d) = Some rt \<and> UserID rt = uid"
    then have "P rt" by (simp add: P_def)
    with a have "find (\<lambda>r. Token r = t) (refresh_tokens d') = Some (g rt)"
      unfolding toks by (simp add: find_update_where g_simps)
    then show "fst (authUseCase_RefreshToken m2 e2 t d') = Inl ErrRefreshTokenRevoked"
      by (simp add: RefreshToken_found_revoked g_simps)
  qed
  show ?thesis
    by (intro conjI) (rule 1 2 3 4 5)+
qed

theorem C8_LogoutAll_revokes_all_witness:
  "fst (authUseCase_LogoutAll demo_env ''u1'' demo_db) = None
   \<and> find (\<lambda>r. Token r = ''t1'') (refresh_tokens demo_db) = Some (refresh_tokens demo_db ! 0)
   \<and> UserID (refresh_tokens demo_db ! 0) = ''u1''
   \<and> \<not> IsRevoked (refresh_tokens demo_db ! 0)
   \<and> fst (authUseCase_RefreshToken demo_manager demo_env ''t1''
             (snd (authUseCase_LogoutAll demo_env ''u1'' demo_db)))
        = Inl ErrRefreshTokenRevoked
   \<and> (3::nat) < length (refresh_tokens demo_db)
   \<and> UserID (refresh_tokens demo_db ! 3) \<noteq> ''u1''
   \<and> refresh_tokens (snd (authUseCase_LogoutAll demo_env ''u1'' demo_db)) ! 3
        = refresh_tokens demo_db ! 3"
proof -
  have h: "authUseCase_LogoutAll demo_env ''u1'' demo_db
             = (None, snd (authUseCase_LogoutAll demo_env ''u1'' demo_db))"
    by (simp add: authUseCase_LogoutAll_def refreshTokenRepository_RevokeAllByUserID_def)
  have f: "find (\<lambda>r. Token r = ''t1'') (refresh_tokens demo_db)
             = Some (refresh_tokens demo_db ! 0)"
    and u: "UserID (refresh_tokens demo_db ! 0) = ''u1''"
    and n: "\<not> IsRevoked (refresh_tokens demo_db ! 0)"
    and l: "(3::nat) < length (refresh_tokens demo_db)"
    and o: "UserID (refresh_tokens demo_db ! 3) \<noteq> ''u1''"
    by (simp_all add: demo_db_simps)
  note r = C8_LogoutAll_revokes_all [OF h]
  from r f u
  have 1: "fst (authUseCase_RefreshToken demo_manager demo_env ''t1''
             (snd (authUseCase_LogoutAll demo_env ''u1'' demo_db)))
        = Inl ErrRefreshTokenRevoked"
    by blast
  from r l o
  have 2: "refresh_tokens (snd (authUseCase_LogoutAll demo_env ''u1'' demo_db)) ! 3
        = refresh_tokens demo_db ! 3"
    by blast
  from h have 3: "fst (authUseCase_LogoutAll demo_env ''u1'' demo_db) = None"
    by (simp add: authUseCase_LogoutAll_def RevokeAllByUserID_simps)
  show ?thesis
    by (intro conjI) (rule 1 2 3 f u n l o)+
qed

section \<open>Generation of a refresh token\<close>



section \<open>Failures of RefreshToken before the revocation\<close>

text \<open>
  C10. When the presented token matches no record, or the matching record is not valid
  (revoked or expired), or the lookup of the owning account fails, RefreshToken returns
  the corresponding error and leaves both tables and the sequence as they were; the
  statements it has run do not include the revocation of the presented token. The account
  is looked up before the token is revoked.
\<close>

theorem C10_RefreshToken_early_error_frame:
  assumes "find (\<lambda>r. Token r = t) (refresh_tokens d) = None
         \<or> (\<exists>rt. find (\<lambda>r. Token r = t) (refresh_tokens d) = Some rt \<and>
               (\<not> RefreshToken_IsValid (time_Now e) rt
                \<or> find (\<lambda>u. ID u = UserID rt \<and> DeletedAt u = None) (users d) = None))"
  shows "fst (authUseCase_RefreshToken m e t d) \<in>
           Inl ` {ErrInvalidToken, ErrRefreshTokenRevoked, ErrRefreshTokenExpired,
                  ErrUserNotFound}
       \<and> refresh_tokens (snd (authUseCase_RefreshToken m e t d)) = refresh_tokens d
       \<and> users (snd (authUseCase_RefreshToken m e t d)) = users d
       \<and> refresh_tokens_id_seq (snd (authUseCase_RefreshToken m e t d))
           = refresh_tokens_id_seq d
       \<and> (\<exists>q. statements (snd (authUseCase_RefreshToken m e t d)) = statements d @ q
              \<and> RefreshTokens_Revoke t \<notin> set q)"
proof (cases "find (\<lambda>r. Token r = t) (refresh_tokens d)")
  case None
  show ?thesis by (simp add: RefreshToken_not_found [OF None] run_simps)
next
  case (Some rt)
  show ?thesis
  proof (cases "IsRevoked rt")
    case True
    show ?thesis by (simp add: RefreshToken_found_revoked [OF Some True] run_simps)
  next
    case not_revoked: False
    show ?thesis
    proof (cases "RefreshToken_IsExpired (time_Now e) rt")
      case True
      show ?thesis
        by (simp add: RefreshToken_found_expired [OF Some not_revoked True] run_simps)
    next
      case False
      with not_revoked have valid: "RefreshToken_IsValid (time_Now e) rt"
        by (simp add: RefreshToken_IsValid_def)
      with assms Some
      have no_user: "find (\<lambda>u. ID u = UserID rt \<and> DeletedAt u = None) (users d) = None"
        by simp
      show ?thesis by (simp add: RefreshToken_no_user [OF Some valid no_user] run_simps)
    qed
  qed
qed

theorem C10_RefreshToken_early_error_frame_witness:
  "find (\<lambda>r. Token r = ''t4'') (refresh_tokens demo_db) = Some (refresh_tokens demo_db ! 3)
   \<and> RefreshToken_IsValid (time_Now demo_env) (refresh_tokens demo_db ! 3)
   \<and> find (\<lambda>u. ID u = UserID (refresh_tokens demo_db ! 3) \<and> DeletedAt u = None)
        (users demo_db) = None
   \<and> fst (authUseCase_RefreshToken demo_manager demo_env ''t4'' demo_db) = Inl ErrUserNotFound
   \<and> refresh_tokens (snd (authUseCase_RefreshToken demo_manager demo_env ''t4'' demo_db))
       = refresh_tokens demo_db"
proof -
  have h1: "find (\<lambda>r. Token r = ''t4'') (refresh_tokens demo_db)
              = Some (refresh_tokens demo_db ! 3)"
    by (simp add: demo_db_simps)
  have h2: "RefreshToken_IsValid (time_Now demo_env) (refresh_tokens demo_db ! 3)"
    by (simp add: demo_db_simps demo_env_simps RefreshToken_IsValid_def
        RefreshToken_IsExpired_def)
  have h3: "find (\<lambda>u. ID u = UserID (refresh_tokens demo_db ! 3) \<and> DeletedAt u = None)
              (users demo_db) = None"
    by (simp add: demo_db_simps demo_user_def)
  have "find (\<lambda>r. Token r = ''t4'') (refresh_tokens demo_db) = None
         \<or> (\<exists>rt. find (\<lambda>r. Token r = ''t4'') (refresh_tokens demo_db) = Some rt \<and>
               (\<not> RefreshToken_IsValid (time_Now demo_env) rt
                \<or> find (\<lambda>u. ID u = UserID rt \<and> DeletedAt u = None) (users demo_db) = None))"
    using h1 h3 by simp
  from C10_RefreshToken_early_error_frame [OF this, of demo_manager]
  have "refresh_tokens (snd (authUseCase_RefreshToken demo_manager demo_env ''t4'' demo_db))
          = refresh_tokens demo_db"
    by simp
  moreover
  have "fst (authUseCase_RefreshToken demo_manager demo_env ''t4'' demo_db)
          = Inl ErrUserNotFound"
    by (simp add: RefreshToken_no_user [OF h1 h2 h3])
  ultimately show ?thesis using h1 h2 h3 by simp
qed

end
